theory Spec2Isabelle
  imports Complex_Main "HOL-Library.AList"
begin

section \<open>Portfolio analysis and optimisation script\<close>

text \<open>
  A shallow embedding of \<^verbatim>\<open>src/python/portfolio_optimizer.py\<close>.

  The script is glue around three collaborators that are not part of the repository:
  the wall clock (\<^verbatim>\<open>datetime.now()\<close>), the market-data provider
  (\<^verbatim>\<open>yf.download\<close>) and the optimisation library (\<^verbatim>\<open>pypfopt\<close>). They are
  gathered in a record \<open>env\<close> of functions; every function of the script takes the
  environment as its first argument. What the script itself does (argument handling,
  control flow, arithmetic, the shape of the result dictionaries, printing, exit
  codes, exceptions) is modelled from the source.

  Python floats are modelled by \<open>real\<close>: there is no NaN, no infinity and no
  binary rounding error in the model.
\<close>

subsection \<open>Exceptions and control flow\<close>

text \<open>
  The exceptions the script can raise. \<open>LibraryError\<close> is any exception coming out of
  the optimisation library.
\<close>

datatype pyexc = IndexError | ValueError | KeyError | ZeroDivisionError | LibraryError string

text \<open>
  How a call of one of the script's functions ends: it returns a value, it raises an
  exception, or it calls \<^verbatim>\<open>sys.exit(n)\<close>.
\<close>

datatype 'a ctl = Returns 'a | Raises pyexc | SysExit int

subsection \<open>Dates\<close>

text \<open>
  A reading of \<^verbatim>\<open>datetime.now()\<close>: the day as a proleptic Gregorian ordinal
  (\<^verbatim>\<open>date.toordinal()\<close>, day 1 is 0001-01-01) and the microsecond within the day.
  Readings of a running system lie far above day 730, so \<^verbatim>\<open>now() - timedelta(days=730)\<close>
  never leaves the range of \<^verbatim>\<open>datetime\<close>.
\<close>

record datetime =
  ordinal :: int
  microsecond_of_day :: nat

definition minus_days :: "datetime \<Rightarrow> int \<Rightarrow> datetime" where
  "minus_days t n = t\<lparr>ordinal := ordinal t - n\<rparr>"

definition digit :: "nat \<Rightarrow> char" where
  "digit n = ''0123456789'' ! (n mod 10)"

definition pad2 :: "nat \<Rightarrow> string" where
  "pad2 n = [digit (n div 10), digit n]"

definition pad4 :: "nat \<Rightarrow> string" where
  "pad4 n = [digit (n div 1000), digit (n div 100), digit (n div 10), digit n]"

text \<open>Year, month and day of an ordinal (the civil calendar, 400-year eras of 146097 days).\<close>

definition ymd_of_ordinal :: "int \<Rightarrow> int \<times> int \<times> int" where
  "ymd_of_ordinal n =
     (let z = n + 305;
          era = z div 146097;
          doe = z - era * 146097;
          yoe = (doe - doe div 1460 + doe div 36524 - doe div 146096) div 365;
          doy = doe - (365 * yoe + yoe div 4 - yoe div 100);
          mp = (5 * doy + 2) div 153;
          d = doy - (153 * mp + 2) div 5 + 1;
          m = (if mp < 10 then mp + 3 else mp - 9);
          y = yoe + era * 400 + (if m \<le> 2 then 1 else 0)
      in (y, m, d))"

text \<open>The day with ordinal \<open>n\<close> in the format \<^verbatim>\<open>%Y-%m-%d\<close>, for years of four digits.\<close>

definition date_string :: "int \<Rightarrow> string" where
  "date_string n =
     (case ymd_of_ordinal n of
        (y, m, d) \<Rightarrow> pad4 (nat y) @ ''-'' @ pad2 (nat m) @ ''-'' @ pad2 (nat d))"

text \<open>\<^verbatim>\<open>t.strftime("%Y-%m-%d")\<close>\<close>

definition strftime_ymd :: "datetime \<Rightarrow> string" where
  "strftime_ymd t = date_string (ordinal t)"

subsection \<open>Numbers\<close>

text \<open>
  \<^verbatim>\<open>round(x, 2)\<close>: the nearest multiple of 0.01, a tie going to the even
  neighbour.
\<close>

definition round_half_even :: "real \<Rightarrow> int" where
  "round_half_even x =
     (let f = \<lfloor>x\<rfloor>; d = x - of_int f
      in if d < 1 / 2 then f
         else if 1 / 2 < d then f + 1
         else if even f then f else f + 1)"

definition round2 :: "real \<Rightarrow> real" where
  "round2 x = of_int (round_half_even (x * 100)) / 100"

subsection \<open>Price tables\<close>

type_synonym ticker = string

text \<open>
  The \<^verbatim>\<open>DataFrame\<close> of adjusted closing prices: its columns in order, each with its
  values down the index; \<open>None\<close> is NaN. All columns of a table have the same length.
\<close>

type_synonym dataframe = "(ticker \<times> real option list) list"

definition columns :: "dataframe \<Rightarrow> ticker list" where
  "columns data = map fst data"

text \<open>\<^verbatim>\<open>data.empty\<close>: one of the two axes has length 0.\<close>

definition df_empty :: "dataframe \<Rightarrow> bool" where
  "df_empty data = (case data of [] \<Rightarrow> True | (c, vs) # _ \<Rightarrow> vs = [])"

text \<open>\<^verbatim>\<open>data[ticker].dropna()\<close>, for a ticker among the columns.\<close>

definition dropna :: "real option list \<Rightarrow> real list" where
  "dropna vs = List.map_filter (\<lambda>v. v) vs"

definition column_dropna :: "dataframe \<Rightarrow> ticker \<Rightarrow> real list" where
  "column_dropna data t = (case map_of data t of None \<Rightarrow> [] | Some vs \<Rightarrow> dropna vs)"

text \<open>
  \<^verbatim>\<open>stock_data.pct_change().dropna()\<close>: the relative change between consecutive
  prices (the first row, which has no predecessor, is NaN and dropped).
\<close>

fun pct_change :: "real list \<Rightarrow> real list" where
  "pct_change (a # b # xs) = (b - a) / a # pct_change (b # xs)"
| "pct_change _ = []"

subsection \<open>Result dictionaries\<close>

record optimization =
  optimal_weights :: "(ticker \<times> real) list"
  expected_annual_return :: real
  annual_volatility :: real
  sharpe_ratio :: real
  tickers :: "ticker list"
  analysis_period_start :: "string option"
  analysis_period_end :: "string option"

record stock =
  current_price :: real
  avg_return :: real
  volatility :: real
  optimal_weight :: real
  recommended_allocation :: real

record projections =
  initial_investment :: real
  projected_1year :: real
  projected_3year :: real
  projected_5year :: real
  gain_1year :: real
  gain_3year :: real
  gain_5year :: real

record risk =
  risk_level :: string
  diversification_score :: real

record prediction =
  portfolio_optimization :: optimization
  stock_analysis :: "(ticker \<times> stock) list"
  investment_projections :: projections
  risk_assessment :: risk
  recommendations :: "string list"

text \<open>
  The dictionaries the script builds, returns and prints: \<open>ErrorRecord msg\<close> is
  \<^verbatim>\<open>{"error": msg}\<close>, the other two are the results of the two commands. A weight
  dictionary and \<^verbatim>\<open>stock_analysis\<close> are association lists in insertion order.
\<close>

datatype pydict =
  ErrorRecord string
| OptimizationRecord optimization
| PredictionRecord prediction

text \<open>\<^verbatim>\<open>"error" in d\<close>\<close>

fun has_error :: "pydict \<Rightarrow> bool" where
  "has_error (ErrorRecord _) = True"
| "has_error _ = False"

subsection \<open>The environment and the state of a run\<close>

text \<open>
  \<^item> \<open>clock e n\<close> is the \<open>n\<close>-th reading of \<^verbatim>\<open>datetime.now()\<close> in the run;
  \<^item> \<open>yf_download e n tks start end\<close> is what the \<open>n\<close>-th evaluation of
    \<^verbatim>\<open>yf.download(tks, start=start, end=end, progress=False)['Adj Close']\<close> gives:
    \<open>Inl msg\<close> when it raises an exception \<open>x\<close> with \<^verbatim>\<open>str(x) = msg\<close>, \<open>Inr data\<close>
    when it yields a table;
  \<^item> \<open>max_sharpe e data\<close> is the optimisation library on a table (lines 39 to 48 of the
    source): the cleaned weights with the expected return, volatility and Sharpe ratio
    of the portfolio, or an exception;
  \<^item> \<open>series_mean\<close> and \<open>series_std\<close> are \<^verbatim>\<open>Series.mean()\<close> and \<^verbatim>\<open>Series.std()\<close>;
  \<^item> \<open>float_of_string\<close> is \<^verbatim>\<open>float(s)\<close>, \<open>None\<close> when it raises ValueError;
  \<^item> \<open>format_1f\<close> is the format specification \<^verbatim>\<open>:.1f\<close>.
\<close>

record env =
  clock :: "nat \<Rightarrow> datetime"
  yf_download :: "nat \<Rightarrow> ticker list \<Rightarrow> string option \<Rightarrow> string option \<Rightarrow> string + dataframe"
  max_sharpe :: "dataframe \<Rightarrow> pyexc + ((ticker \<times> real) list \<times> real \<times> real \<times> real)"
  series_mean :: "real list \<Rightarrow> real"
  series_std :: "real list \<Rightarrow> real"
  float_of_string :: "string \<Rightarrow> real option"
  format_1f :: "real \<Rightarrow> string"

text \<open>
  The state of a run: how often the clock was read and the provider was queried, and
  the dictionaries printed to standard output so far (each by
  \<^verbatim>\<open>print(json.dumps(d))\<close>).
\<close>

record pstate =
  clock_reads :: nat
  downloads :: nat
  stdout :: "pydict list"

definition init_state :: pstate where
  "init_state = \<lparr>clock_reads = 0, downloads = 0, stdout = []\<rparr>"

definition datetime_now :: "env \<Rightarrow> pstate \<Rightarrow> datetime \<times> pstate" where
  "datetime_now e s = (clock e (clock_reads s), s\<lparr>clock_reads := Suc (clock_reads s)\<rparr>)"

definition print_json :: "pydict \<Rightarrow> pstate \<Rightarrow> pstate" where
  "print_json d s = s\<lparr>stdout := stdout s @ [d]\<rparr>"

text \<open>Truth value of an optional string argument: \<^verbatim>\<open>None\<close> and \<^verbatim>\<open>""\<close> are false.\<close>

definition falsy :: "string option \<Rightarrow> bool" where
  "falsy a = (case a of None \<Rightarrow> True | Some v \<Rightarrow> v = [])"

subsection \<open>fetch_portfolio_data\<close>

definition fetch_portfolio_data ::
  "env \<Rightarrow> ticker list \<Rightarrow> string option \<Rightarrow> string option \<Rightarrow> pstate \<Rightarrow> dataframe ctl \<times> pstate" where
  "fetch_portfolio_data e tks start_date end_date s =
     (let s1 = s\<lparr>downloads := Suc (downloads s)\<rparr> in
      case yf_download e (downloads s) tks start_date end_date of
        Inr data \<Rightarrow> (Returns data, s1)
      | Inl msg \<Rightarrow> (SysExit 1, print_json (ErrorRecord (''Failed to fetch data: '' @ msg)) s1))"

subsection \<open>optimize_portfolio\<close>

text \<open>Lines 28 to 30: the default analysis period, end date first.\<close>

definition default_period ::
  "env \<Rightarrow> string option \<Rightarrow> string option \<Rightarrow> pstate \<Rightarrow> (string option \<times> string option) \<times> pstate" where
  "default_period e start_date end_date s =
     (if falsy start_date then
        (case datetime_now e s of (t1, s1) \<Rightarrow>
           (case datetime_now e s1 of (t2, s2) \<Rightarrow>
              ((Some (strftime_ymd (minus_days t2 730)), Some (strftime_ymd t1)), s2)))
      else ((start_date, end_date), s))"

definition optimize_portfolio ::
  "env \<Rightarrow> ticker list \<Rightarrow> string option \<Rightarrow> string option \<Rightarrow> pstate \<Rightarrow> pydict ctl \<times> pstate" where
  "optimize_portfolio e tks start_date0 end_date0 s =
     (case default_period e start_date0 end_date0 s of ((start_date, end_date), s1) \<Rightarrow>
       (case fetch_portfolio_data e tks start_date end_date s1 of
          (Raises x, s2) \<Rightarrow> (Raises x, s2)
        | (SysExit n, s2) \<Rightarrow> (SysExit n, s2)
        | (Returns data, s2) \<Rightarrow>
            (if df_empty data then
               (Returns (ErrorRecord ''No data available for the given tickers''), s2)
             else
               (case max_sharpe e data of
                  Inl x \<Rightarrow> (Raises x, s2)
                | Inr (cleaned_weights, p0, p1, p2) \<Rightarrow>
                    (Returns (OptimizationRecord
                       \<lparr>optimal_weights = cleaned_weights,
                        expected_annual_return = round2 (p0 * 100),
                        annual_volatility = round2 (p1 * 100),
                        sharpe_ratio = round2 p2,
                        tickers = tks,
                        analysis_period_start = start_date,
                        analysis_period_end = end_date\<rparr>), s2)))))"

subsection \<open>predict_portfolio_performance\<close>

text \<open>\<^verbatim>\<open>weights.get(ticker, 0)\<close>\<close>

definition weight_get :: "(ticker \<times> real) list \<Rightarrow> ticker \<Rightarrow> real" where
  "weight_get weights t = (case map_of weights t of None \<Rightarrow> 0 | Some w \<Rightarrow> w)"

text \<open>
  Lines 81 to 93, the loop over the requested tickers. \<open>sa\<close> is the dictionary
  \<^verbatim>\<open>stock_analysis\<close> built so far; assigning to a key that is already there replaces
  its value in place. \<^verbatim>\<open>stock_data.iloc[-1]\<close> raises IndexError on a column
  without any price.
\<close>

fun stock_analysis_loop ::
  "env \<Rightarrow> dataframe \<Rightarrow> real \<Rightarrow> (ticker \<times> real) list \<Rightarrow> ticker list \<Rightarrow>
     (ticker \<times> stock) list \<Rightarrow> pyexc + (ticker \<times> stock) list" where
  "stock_analysis_loop e data investment_amount weights [] sa = Inr sa"
| "stock_analysis_loop e data investment_amount weights (t # ts) sa =
     (if t \<in> set (columns data) then
        (let stock_data = column_dropna data t;
             returns = pct_change stock_data
         in if stock_data = [] then Inl IndexError
            else stock_analysis_loop e data investment_amount weights ts
                   (AList.update t
                      \<lparr>current_price = round2 (last stock_data),
                       avg_return = round2 (series_mean e returns * 252 * 100),
                       volatility = round2 (series_std e returns * sqrt 252 * 100),
                       optimal_weight = weight_get weights t,
                       recommended_allocation = round2 (investment_amount * weight_get weights t)\<rparr>
                      sa))
      else stock_analysis_loop e data investment_amount weights ts sa)"

text \<open>Line 114, the conditional expression on the annual volatility.\<close>

definition risk_level_of :: "real \<Rightarrow> string" where
  "risk_level_of v = (if v > 25 then ''High'' else if v > 15 then ''Medium'' else ''Low'')"

text \<open>\<^verbatim>\<open>max(xs)\<close> of a non-empty sequence.\<close>

fun max_list :: "real list \<Rightarrow> real" where
  "max_list [] = 0"
| "max_list [x] = x"
| "max_list (x # y # xs) = max x (max_list (y # xs))"

text \<open>Lines 149 to 153, the loop over \<^verbatim>\<open>stock_analysis.items()\<close>.\<close>

fun stock_recommendations :: "env \<Rightarrow> (ticker \<times> stock) list \<Rightarrow> string list" where
  "stock_recommendations e [] = []"
| "stock_recommendations e ((t, analysis) # rest) =
     (if optimal_weight analysis > 3 / 10 then
        [t @ '': High allocation recommended ('' @ format_1f e (optimal_weight analysis * 100)
           @ ''%). Strong performer.'']
      else if optimal_weight analysis < 5 / 100 then
        [t @ '': Low allocation ('' @ format_1f e (optimal_weight analysis * 100)
           @ ''%). Consider alternatives.'']
      else [])
     @ stock_recommendations e rest"

text \<open>
  \<^verbatim>\<open>max(weights.values())\<close> raises ValueError on an empty weight dictionary; the two
  recommendations before it have been appended by then, but the list is lost with the
  exception.
\<close>

definition generate_recommendations ::
  "env \<Rightarrow> optimization \<Rightarrow> (ticker \<times> stock) list \<Rightarrow> pyexc + string list" where
  "generate_recommendations e opt sa =
     (let sharpe = sharpe_ratio opt;
          r1 = [if sharpe > 3 / 2 then
                  ''Excellent risk-adjusted returns. Strong portfolio allocation.''
                else if sharpe > 1 then
                  ''Good risk-adjusted returns. Portfolio is well-balanced.''
                else ''Consider diversifying to improve risk-adjusted returns.''];
          vol = annual_volatility opt;
          r2 = r1 @ (if vol > 25 then
                       [''High volatility detected. Consider adding stable assets to reduce risk.'']
                     else if vol < 15 then
                       [''Low volatility portfolio. Suitable for conservative investors.'']
                     else []);
          weights = optimal_weights opt
      in if weights = [] then Inl ValueError
         else
           (let max_weight = max_list (map snd weights);
                r3 = r2 @ (if max_weight > 4 / 10 then
                             [''Portfolio is concentrated in one asset (''
                                @ format_1f e (max_weight * 100) @ ''%). Consider diversifying.'']
                           else [])
            in Inr (r3 @ stock_recommendations e sa)))"

text \<open>
  The dictionary literal of lines 101 to 118 is evaluated in order: dividing by
  \<^verbatim>\<open>len(tickers)\<close> comes before the call of \<^verbatim>\<open>generate_recommendations\<close>.
\<close>

definition predict_portfolio_performance ::
  "env \<Rightarrow> ticker list \<Rightarrow> real \<Rightarrow> pstate \<Rightarrow> pydict ctl \<times> pstate" where
  "predict_portfolio_performance e tks investment_amount s =
     (case datetime_now e s of (t1, s1) \<Rightarrow>
     (case datetime_now e s1 of (t2, s2) \<Rightarrow>
     (let end_date = strftime_ymd t1;
          start_date = strftime_ymd (minus_days t2 730)
      in
      (case optimize_portfolio e tks (Some start_date) (Some end_date) s2 of
         (Raises x, s3) \<Rightarrow> (Raises x, s3)
       | (SysExit n, s3) \<Rightarrow> (SysExit n, s3)
       | (Returns optimization, s3) \<Rightarrow>
          (if has_error optimization then (Returns optimization, s3)
           else
           (case fetch_portfolio_data e tks (Some start_date) (Some end_date) s3 of
              (Raises x, s4) \<Rightarrow> (Raises x, s4)
            | (SysExit n, s4) \<Rightarrow> (SysExit n, s4)
            | (Returns data, s4) \<Rightarrow>
               (case optimization of
                  OptimizationRecord opt \<Rightarrow>
                    (case stock_analysis_loop e data investment_amount (optimal_weights opt) tks [] of
                       Inl x \<Rightarrow> (Raises x, s4)
                     | Inr sa \<Rightarrow>
                        (let expected_return = expected_annual_return opt;
                             p1 = round2 (investment_amount * (1 + expected_return / 100));
                             p3 = round2 (investment_amount * ((1 + expected_return / 100) ^ 3));
                             p5 = round2 (investment_amount * ((1 + expected_return / 100) ^ 5))
                         in if length tks = 0 then (Raises ZeroDivisionError, s4)
                            else
                            (case generate_recommendations e opt sa of
                               Inl x \<Rightarrow> (Raises x, s4)
                             | Inr recs \<Rightarrow>
                                (Returns (PredictionRecord
                                   \<lparr>portfolio_optimization = opt,
                                    stock_analysis = sa,
                                    investment_projections =
                                      \<lparr>initial_investment = investment_amount,
                                       projected_1year = p1,
                                       projected_3year = p3,
                                       projected_5year = p5,
                                       gain_1year = round2 (p1 - investment_amount),
                                       gain_3year = round2 (p3 - investment_amount),
                                       gain_5year = round2 (p5 - investment_amount)\<rparr>,
                                    risk_assessment =
                                      \<lparr>risk_level = risk_level_of (annual_volatility opt),
                                       diversification_score =
                                         round2 (real (length (filter (\<lambda>w. w > 5 / 100)
                                                        (map snd (optimal_weights opt))))
                                                 / real (length tks) * 100)\<rparr>,
                                    recommendations = recs\<rparr>), s4))))
                | _ \<Rightarrow> (Raises KeyError, s4))))))))"

subsection \<open>The command line\<close>

text \<open>\<^verbatim>\<open>s.split(",")\<close>\<close>

fun split_comma :: "string \<Rightarrow> string list" where
  "split_comma [] = [[]]"
| "split_comma (c # cs) =
     (if c = CHR '','' then [] # split_comma cs
      else (case split_comma cs of
              [] \<Rightarrow> [[c]]
            | w # ws \<Rightarrow> (c # w) # ws))"

text \<open>
  How the process ends: by \<^verbatim>\<open>sys.exit(n)\<close> or by running off the end of the script
  (\<open>Exit 0\<close>), or by an exception nobody catches, which the interpreter reports on
  standard error before it exits with code 1.
\<close>

datatype status = Exit int | Uncaught pyexc

fun exit_code :: "status \<Rightarrow> int" where
  "exit_code (Exit n) = n"
| "exit_code (Uncaught x) = 1"

text \<open>The end of a command: print the result of a call that returned, then fall off the end.\<close>

definition print_result :: "pydict ctl \<times> pstate \<Rightarrow> pydict list \<times> status" where
  "print_result r =
     (case r of
        (Returns result, s) \<Rightarrow> (stdout (print_json result s), Exit 0)
      | (Raises x, s) \<Rightarrow> (stdout s, Uncaught x)
      | (SysExit n, s) \<Rightarrow> (stdout s, Exit n))"

text \<open>
  Lines 157 to 178. \<open>argv\<close> is \<^verbatim>\<open>sys.argv\<close>, the script's name first. The result is
  what was printed to standard output and how the process ended.
\<close>

definition main :: "env \<Rightarrow> string list \<Rightarrow> pydict list \<times> status" where
  "main e argv =
     (if length argv < 2 then ([ErrorRecord ''No tickers provided''], Exit 1)
      else
        (let command = argv ! 1 in
         if command = ''optimize'' then
           (if length argv \<le> 2 then ([], Uncaught IndexError)
            else print_result (optimize_portfolio e (split_comma (argv ! 2)) None None init_state))
         else if command = ''predict'' then
           (if length argv \<le> 2 then ([], Uncaught IndexError)
            else
              (let tks = split_comma (argv ! 2) in
               if length argv > 3 then
                 (case float_of_string e (argv ! 3) of
                    None \<Rightarrow> ([], Uncaught ValueError)
                  | Some investment \<Rightarrow>
                      print_result (predict_portfolio_performance e tks investment init_state))
               else print_result (predict_portfolio_performance e tks 10000 init_state)))
         else ([ErrorRecord (''Invalid command. Use '' @ [CHR 0x27] @ ''optimize'' @ [CHR 0x27]
                               @ '' or '' @ [CHR 0x27] @ ''predict'' @ [CHR 0x27])], Exit 1)))"

section \<open>Notions of the specification\<close>

text \<open>
  The specification orders the three risk levels: low below medium below high.
\<close>

definition risk_rank :: "string \<Rightarrow> nat" where
  "risk_rank l = (if l = ''Low'' then 0 else if l = ''Medium'' then 1 else 2)"

text \<open>The analysis period a result records, start first.\<close>

definition analysis_period :: "optimization \<Rightarrow> string option \<times> string option" where
  "analysis_period r = (analysis_period_start r, analysis_period_end r)"

text \<open>The 730 days ending at the day with ordinal \<open>d\<close>, as a pair of date strings.\<close>

definition period_ending :: "int \<Rightarrow> string option \<times> string option" where
  "period_ending d = (Some (date_string (d - 730)), Some (date_string d))"

section \<open>Example runs\<close>

text \<open>
  An environment for concrete runs. It is noon on 2024-01-01 (ordinal 738886). The
  provider knows one ticker, AAPL, with three prices; for a request without AAPL it
  yields an empty table. The optimiser puts everything into AAPL and reports an
  expected return of 12.34 percent, a volatility of 20 percent and a Sharpe ratio of
  1.2. Both daily returns of AAPL are 0.1, so their standard deviation is 0; the only
  number that is ever formatted is 100.
\<close>

definition demo_prices :: dataframe where
  "demo_prices = [(''AAPL'', [Some 100, Some 110, Some 121])]"

definition demo_env :: env where
  "demo_env =
     \<lparr>clock = (\<lambda>n. \<lparr>ordinal = 738886, microsecond_of_day = 43200000000 + n\<rparr>),
      yf_download = (\<lambda>n tks a b. if ''AAPL'' \<in> set tks then Inr demo_prices else Inr []),
      max_sharpe = (\<lambda>data. Inr ([(''AAPL'', 1)], 1234 / 10000, 20 / 100, 12 / 10)),
      series_mean = (\<lambda>xs. sum_list xs / real (length xs)),
      series_std = (\<lambda>xs. 0),
      float_of_string = (\<lambda>s. if s = ''5000'' then Some 5000 else None),
      format_1f = (\<lambda>x. ''100.0'')\<rparr>"

text \<open>What \<^verbatim>\<open>predict AAPL,ZZZZ\<close> returns in that environment.\<close>

definition demo_optimization :: optimization where
  "demo_optimization =
     \<lparr>optimal_weights = [(''AAPL'', 1)],
      expected_annual_return = 1234 / 100,
      annual_volatility = 20,
      sharpe_ratio = 12 / 10,
      tickers = [''AAPL'', ''ZZZZ''],
      analysis_period_start = Some ''2022-01-01'',
      analysis_period_end = Some ''2024-01-01''\<rparr>"

definition demo_prediction :: prediction where
  "demo_prediction =
     \<lparr>portfolio_optimization = demo_optimization,
      stock_analysis =
        [(''AAPL'',
          \<lparr>current_price = 121, avg_return = 2520, volatility = 0,
           optimal_weight = 1, recommended_allocation = 10000\<rparr>)],
      investment_projections =
        \<lparr>initial_investment = 10000,
         projected_1year = 11234,
         projected_3year = 1417762 / 100,
         projected_5year = 1789254 / 100,
         gain_1year = 1234,
         gain_3year = 417762 / 100,
         gain_5year = 789254 / 100\<rparr>,
      risk_assessment = \<lparr>risk_level = ''Medium'', diversification_score = 50\<rparr>,
      recommendations =
        [''Good risk-adjusted returns. Portfolio is well-balanced.'',
         ''Portfolio is concentrated in one asset (100.0%). Consider diversifying.'',
         ''AAPL: High allocation recommended (100.0%). Strong performer.'']\<rparr>"

text \<open>
  The same environment with an optimiser that reports an expected return of 8 percent,
  a volatility of 30 percent and a Sharpe ratio of 0.2, and what \<^verbatim>\<open>predict AAPL\<close>
  returns there.
\<close>

definition volatile_env :: env where
  "volatile_env = demo_env\<lparr>max_sharpe := (\<lambda>data. Inr ([(''AAPL'', 1)], 8 / 100, 30 / 100, 2 / 10))\<rparr>"

definition volatile_prediction :: prediction where
  "volatile_prediction =
     \<lparr>portfolio_optimization =
        \<lparr>optimal_weights = [(''AAPL'', 1)],
         expected_annual_return = 8,
         annual_volatility = 30,
         sharpe_ratio = 2 / 10,
         tickers = [''AAPL''],
         analysis_period_start = Some ''2022-01-01'',
         analysis_period_end = Some ''2024-01-01''\<rparr>,
      stock_analysis =
        [(''AAPL'',
          \<lparr>current_price = 121, avg_return = 2520, volatility = 0,
           optimal_weight = 1, recommended_allocation = 10000\<rparr>)],
      investment_projections =
        \<lparr>initial_investment = 10000,
         projected_1year = 10800,
         projected_3year = 1259712 / 100,
         projected_5year = 1469328 / 100,
         gain_1year = 800,
         gain_3year = 259712 / 100,
         gain_5year = 469328 / 100\<rparr>,
      risk_assessment = \<lparr>risk_level = ''High'', diversification_score = 100\<rparr>,
      recommendations =
        [''Consider diversifying to improve risk-adjusted returns.'',
         ''High volatility detected. Consider adding stable assets to reduce risk.'',
         ''Portfolio is concentrated in one asset (100.0%). Consider diversifying.'',
         ''AAPL: High allocation recommended (100.0%). Strong performer.'']\<rparr>"

text \<open>
  The first environment with a clock that passes midnight between its first two
  readings: the first is the last microsecond of 2024-01-01, the later ones are on
  2024-01-02 (ordinal 738887). \<open>midnight_optimization\<close> is what
  \<^verbatim>\<open>optimize_portfolio(["AAPL"])\<close> returns there.
\<close>

definition midnight_env :: env where
  "midnight_env =
     demo_env\<lparr>clock := (\<lambda>n. if n = 0 then \<lparr>ordinal = 738886, microsecond_of_day = 86399999999\<rparr>
                              else \<lparr>ordinal = 738887, microsecond_of_day = n\<rparr>)\<rparr>"

definition midnight_optimization :: optimization where
  "midnight_optimization =
     \<lparr>optimal_weights = [(''AAPL'', 1)],
      expected_annual_return = 1234 / 100,
      annual_volatility = 20,
      sharpe_ratio = 12 / 10,
      tickers = [''AAPL''],
      analysis_period_start = Some ''2022-01-02'',
      analysis_period_end = Some ''2024-01-01''\<rparr>"

section \<open>Basic facts\<close>

subsection \<open>Dates and the default period\<close>

lemma date_string_nonempty: "date_string n \<noteq> []"
  by (simp add: date_string_def pad4_def split: prod.splits)

lemma falsy_strftime: "\<not> falsy (Some (strftime_ymd t))"
  by (simp add: falsy_def strftime_ymd_def date_string_nonempty)

lemma default_period_given:
  "\<not> falsy start_date \<Longrightarrow> default_period e start_date end_date s = ((start_date, end_date), s)"
  by (simp add: default_period_def)

lemma default_period_now:
  "falsy start_date \<Longrightarrow>
   default_period e start_date end_date s =
     ((Some (date_string (ordinal (clock e (Suc (clock_reads s))) - 730)),
       Some (date_string (ordinal (clock e (clock_reads s))))),
      s\<lparr>clock_reads := Suc (Suc (clock_reads s))\<rparr>)"
  by (simp add: default_period_def datetime_now_def strftime_ymd_def minus_days_def)

lemma default_period_downloads:
  "default_period e start_date end_date s = (r, s1) \<Longrightarrow> downloads s1 = downloads s"
  by (cases "falsy start_date") (auto simp: default_period_now default_period_given)

lemma date_string_values:
  "date_string 738886 = ''2024-01-01''"
  "date_string 738887 = ''2024-01-02''"
  "date_string 738156 = ''2022-01-01''"
  "date_string 738157 = ''2022-01-02''"
  by code_simp+

subsection \<open>Rounding\<close>





lemma round2_values:
  "round2 0 = 0" "round2 8 = 8" "round2 20 = 20" "round2 30 = 30" "round2 50 = 50"
  "round2 100 = 100" "round2 121 = 121" "round2 800 = 800" "round2 1234 = 1234"
  "round2 2520 = 2520" "round2 10000 = 10000" "round2 10800 = 10800" "round2 11234 = 11234"
  "round2 (1 / 5) = 1 / 5" "round2 (6 / 5) = 6 / 5" "round2 (617 / 50) = 617 / 50"
  by code_simp+

lemma round2_projections:
  "round2 (10000 * (5617 / 5000) ^ 3) = 708881 / 50"
  "round2 (10000 * (5617 / 5000) ^ 5) = 894627 / 50"
  "round2 (208881 / 50) = 208881 / 50"
  "round2 (394627 / 50) = 394627 / 50"
  "round2 (10000 * (27 / 25) ^ 3) = 314928 / 25"
  "round2 (10000 * (27 / 25) ^ 5) = 367332 / 25"
  "round2 (64928 / 25) = 64928 / 25"
  "round2 (117332 / 25) = 117332 / 25"
  by code_simp+

subsection \<open>How the functions return\<close>

lemma fetch_Returns:
  "fetch_portfolio_data e tks a b s = (Returns data, s') \<longleftrightarrow>
     yf_download e (downloads s) tks a b = Inr data \<and> s' = s\<lparr>downloads := Suc (downloads s)\<rparr>"
  by (auto simp: fetch_portfolio_data_def Let_def split: sum.splits)

lemma optimize_OptimizationRecord:
  assumes "optimize_portfolio e tks sd ed s = (Returns (OptimizationRecord opt), s')"
  obtains a b s1 data w p0 p1 p2 where
    "default_period e sd ed s = ((a, b), s1)"
    "yf_download e (downloads s1) tks a b = Inr data"
    "\<not> df_empty data"
    "max_sharpe e data = Inr (w, p0, p1, p2)"
    "s' = s1\<lparr>downloads := Suc (downloads s1)\<rparr>"
    "opt = \<lparr>optimal_weights = w,
            expected_annual_return = round2 (p0 * 100),
            annual_volatility = round2 (p1 * 100),
            sharpe_ratio = round2 p2,
            tickers = tks,
            analysis_period_start = a,
            analysis_period_end = b\<rparr>"
  using assms
  by (auto simp: optimize_portfolio_def fetch_portfolio_data_def Let_def
      split: prod.splits ctl.splits sum.splits if_splits)

lemma predict_PredictionRecord:
  assumes "predict_portfolio_performance e tks investment_amount s = (Returns (PredictionRecord p), s')"
  obtains a b s2 opt s3 data sa recs where
    "default_period e None None s = ((a, b), s2)"
    "optimize_portfolio e tks a b s2 = (Returns (OptimizationRecord opt), s3)"
    "fetch_portfolio_data e tks a b s3 = (Returns data, s')"
    "stock_analysis_loop e data investment_amount (optimal_weights opt) tks [] = Inr sa"
    "tks \<noteq> []"
    "generate_recommendations e opt sa = Inr recs"
    "portfolio_optimization p = opt"
    "stock_analysis p = sa"
    "recommendations p = recs"
    "investment_projections p =
       \<lparr>initial_investment = investment_amount,
        projected_1year = round2 (investment_amount * (1 + expected_annual_return opt / 100)),
        projected_3year = round2 (investment_amount * ((1 + expected_annual_return opt / 100) ^ 3)),
        projected_5year = round2 (investment_amount * ((1 + expected_annual_return opt / 100) ^ 5)),
        gain_1year = round2 (round2 (investment_amount * (1 + expected_annual_return opt / 100)) - investment_amount),
        gain_3year = round2 (round2 (investment_amount * ((1 + expected_annual_return opt / 100) ^ 3)) - investment_amount),
        gain_5year = round2 (round2 (investment_amount * ((1 + expected_annual_return opt / 100) ^ 5)) - investment_amount)\<rparr>"
    "risk_assessment p =
       \<lparr>risk_level = risk_level_of (annual_volatility opt),
        diversification_score =
          round2 (real (length (filter (\<lambda>w. w > 5 / 100) (map snd (optimal_weights opt))))
                  / real (length tks) * 100)\<rparr>"
proof -
  obtain t1 s1 where n1: "datetime_now e s = (t1, s1)" by (cases "datetime_now e s")
  obtain t2 s2 where n2: "datetime_now e s1 = (t2, s2)" by (cases "datetime_now e s1")
  let ?a = "Some (strftime_ymd (minus_days t2 730))" and ?b = "Some (strftime_ymd t1)"
  have dp: "default_period e None None s = ((?a, ?b), s2)"
    by (simp add: default_period_def falsy_def n1 n2)
  from assms n1 n2 show thesis
    by (auto simp: predict_portfolio_performance_def Let_def dp comp_def
        split: prod.splits ctl.splits sum.splits if_splits pydict.splits
        intro!: that[OF dp])
qed

subsection \<open>The loop over the requested tickers\<close>

lemma loop_filter:
  "stock_analysis_loop e data a ws ts sa =
   stock_analysis_loop e data a ws (filter (\<lambda>t. t \<in> set (columns data)) ts) sa"
  by (induction ts arbitrary: sa) (simp_all add: Let_def)

lemma loop_keys:
  "stock_analysis_loop e data a ws ts sa = Inr sa' \<Longrightarrow>
   fst ` set sa' = fst ` set sa \<union> (set ts \<inter> set (columns data))"
proof (induction ts arbitrary: sa)
  case Nil
  then show ?case by simp
next
  case (Cons t ts)
  then show ?case
    by (auto simp: Let_def dom_update split: if_splits)
qed

lemma loop_returns:
  "(\<forall>t\<in>set ts. t \<in> set (columns data) \<longrightarrow> column_dropna data t \<noteq> []) \<Longrightarrow>
   \<exists>sa'. stock_analysis_loop e data a ws ts sa = Inr sa'"
  by (induction ts arbitrary: sa) (simp_all add: Let_def)

subsection \<open>The example runs\<close>

lemmas run_simps =
  predict_portfolio_performance_def optimize_portfolio_def default_period_def datetime_now_def
  strftime_ymd_def minus_days_def fetch_portfolio_data_def print_json_def df_empty_def falsy_def
  init_state_def columns_def column_dropna_def dropna_def List.map_filter_simps weight_get_def
  Let_def generate_recommendations_def risk_level_of_def
  demo_env_def demo_prices_def date_string_values round2_values round2_projections

lemma demo_run:
  "predict_portfolio_performance demo_env [''AAPL'', ''ZZZZ''] 10000 init_state =
     (Returns (PredictionRecord demo_prediction), \<lparr>clock_reads = 2, downloads = 2, stdout = []\<rparr>)"
  by (simp add: run_simps demo_prediction_def demo_optimization_def)

lemma volatile_run:
  "predict_portfolio_performance volatile_env [''AAPL''] 10000 init_state =
     (Returns (PredictionRecord volatile_prediction), \<lparr>clock_reads = 2, downloads = 2, stdout = []\<rparr>)"
  by (simp add: run_simps volatile_env_def volatile_prediction_def)

lemma midnight_run:
  "optimize_portfolio midnight_env [''AAPL''] None None init_state =
     (Returns (OptimizationRecord midnight_optimization), \<lparr>clock_reads = 2, downloads = 1, stdout = []\<rparr>)"
  by (simp add: run_simps midnight_env_def midnight_optimization_def)

lemma demo_optimize_run:
  "optimize_portfolio demo_env [''AAPL'', ''ZZZZ''] None None init_state =
     (Returns (OptimizationRecord demo_optimization), \<lparr>clock_reads = 2, downloads = 1, stdout = []\<rparr>)"
  by (simp add: run_simps demo_optimization_def)

subsection \<open>The period of a successful call\<close>

text \<open>
  The end date comes from the first clock reading of the call, the start date from the
  second; the provider is asked for that period and the result records it.
\<close>

lemma falsy_date_string: "\<not> falsy (Some (date_string n))"
  by (simp add: falsy_def date_string_nonempty)

lemma period_components:
  "analysis_period r = q \<Longrightarrow> analysis_period_start r = fst q \<and> analysis_period_end r = snd q"
  by (auto simp: analysis_period_def)

lemma optimize_period:
  assumes "falsy start_date"
      and "optimize_portfolio e tks start_date end_date s = (Returns (OptimizationRecord r), s')"
  shows "analysis_period r =
           (Some (date_string (ordinal (clock e (Suc (clock_reads s))) - 730)),
            Some (date_string (ordinal (clock e (clock_reads s)))))
       \<and> (\<exists>data. yf_download e (downloads s) tks
                    (analysis_period_start r) (analysis_period_end r) = Inr data)"
  using assms(2)
proof (rule optimize_OptimizationRecord)
  fix a b s1 data w p0 p1 p2
  assume dp: "default_period e start_date end_date s = ((a, b), s1)"
    and dl: "yf_download e (downloads s1) tks a b = Inr data"
    and r: "r = \<lparr>optimal_weights = w, expected_annual_return = round2 (p0 * 100),
                 annual_volatility = round2 (p1 * 100), sharpe_ratio = round2 p2,
                 tickers = tks, analysis_period_start = a, analysis_period_end = b\<rparr>"
  from dp have ds: "downloads s1 = downloads s" by (rule default_period_downloads)
  from dp assms(1) have ab:
    "a = Some (date_string (ordinal (clock e (Suc (clock_reads s))) - 730))"
    "b = Some (date_string (ordinal (clock e (clock_reads s))))"
    by (simp_all add: default_period_now)
  from dl ds r ab show ?thesis by (auto simp: analysis_period_def)
qed

lemma predict_period:
  assumes "predict_portfolio_performance e tks A s = (Returns (PredictionRecord p), s')"
  shows "analysis_period (portfolio_optimization p) =
           (Some (date_string (ordinal (clock e (Suc (clock_reads s))) - 730)),
            Some (date_string (ordinal (clock e (clock_reads s)))))
       \<and> (\<exists>data. yf_download e (downloads s) tks
                    (analysis_period_start (portfolio_optimization p))
                    (analysis_period_end (portfolio_optimization p)) = Inr data)
       \<and> (\<exists>data. yf_download e (Suc (downloads s)) tks
                    (analysis_period_start (portfolio_optimization p))
                    (analysis_period_end (portfolio_optimization p)) = Inr data
                 \<and> fst ` set (stock_analysis p) = set tks \<inter> set (columns data))"
  using assms
proof (rule predict_PredictionRecord)
  fix a b s2 opt s3 data sa recs
  assume dp: "default_period e None None s = ((a, b), s2)"
    and opt: "optimize_portfolio e tks a b s2 = (Returns (OptimizationRecord opt), s3)"
    and fetch: "fetch_portfolio_data e tks a b s3 = (Returns data, s')"
    and loop: "stock_analysis_loop e data A (optimal_weights opt) tks [] = Inr sa"
    and p: "portfolio_optimization p = opt" "stock_analysis p = sa"
  have "falsy None" by (simp add: falsy_def)
  with dp have ab:
    "a = Some (date_string (ordinal (clock e (Suc (clock_reads s))) - 730))"
    "b = Some (date_string (ordinal (clock e (clock_reads s))))"
    by (simp_all add: default_period_now)
  from dp have s2: "downloads s2 = downloads s" by (rule default_period_downloads)
  from ab have given: "\<not> falsy a" by (simp add: falsy_date_string)
  from opt show ?thesis
  proof (rule optimize_OptimizationRecord)
    fix a' b' s1 data1 w p0 p1 p2
    assume dp': "default_period e a b s2 = ((a', b'), s1)"
      and dl: "yf_download e (downloads s1) tks a' b' = Inr data1"
      and s3: "s3 = s1\<lparr>downloads := Suc (downloads s1)\<rparr>"
      and r: "opt = \<lparr>optimal_weights = w, expected_annual_return = round2 (p0 * 100),
                     annual_volatility = round2 (p1 * 100), sharpe_ratio = round2 p2,
                     tickers = tks, analysis_period_start = a', analysis_period_end = b'\<rparr>"
    from dp' given have same: "a' = a" "b' = b" "s1 = s2"
      by (simp_all add: default_period_given)
    from fetch have dl2: "yf_download e (downloads s3) tks a b = Inr data"
      by (simp add: fetch_Returns)
    from loop have keys: "fst ` set sa = set tks \<inter> set (columns data)"
      by (simp add: loop_keys)
    have period: "analysis_period_start opt = a" "analysis_period_end opt = b"
      using r same by simp_all
    have first: "yf_download e (downloads s) tks a b = Inr data1"
      using dl same s2 by simp
    have second: "yf_download e (Suc (downloads s)) tks a b = Inr data"
      using dl2 s3 same s2 by simp
    show ?thesis
      unfolding p analysis_period_def period
      using first second keys ab by blast
  qed
qed

section \<open>The claims\<close>

subsection \<open>C1: output and exit code of the command line\<close>

text \<open>
  C1. For every invocation the program writes a single JSON object to standard output,
  and the process ends with exit code 1 on any error (usage error, data-fetch failure, or
  a computation that produces an error record) and with exit code 0 otherwise.

  The script does not do that for an error record. Run as
  \<^verbatim>\<open>portfolio_optimizer.py optimize ZZZZ\<close> where the provider has no data for ZZZZ,
  \<^verbatim>\<open>optimize_portfolio\<close> returns the error record, the script prints it and runs off
  its end: the exit code is 0, where every other error path of the script calls
  \<^verbatim>\<open>sys.exit(1)\<close>.
\<close>

theorem error_record_exits_with_0:
  "main demo_env [''portfolio_optimizer.py'', ''optimize'', ''ZZZZ''] =
     ([ErrorRecord ''No data available for the given tickers''], Exit 0)
   \<and> has_error (ErrorRecord ''No data available for the given tickers'')
   \<and> exit_code (snd (main demo_env [''portfolio_optimizer.py'', ''optimize'', ''ZZZZ''])) = 0"
  by (simp add: main_def print_result_def run_simps)

subsection \<open>C2: compound projections\<close>



subsection \<open>C3: risk level\<close>

text \<open>
  C3. In every result of \<^verbatim>\<open>predict_portfolio_performance\<close> the risk level is "High"
  exactly when the annual volatility is above 25, "Medium" exactly when it is above 15
  and at most 25, and "Low" otherwise; so of two results, the one with the larger
  volatility never has the lower risk level.
\<close>

theorem risk_level_thresholds:
  assumes "predict_portfolio_performance e tks A s = (Returns (PredictionRecord p), s')"
      and "predict_portfolio_performance e2 tks2 A2 s2 = (Returns (PredictionRecord p2), s2')"
  shows "(risk_level (risk_assessment p) = ''High''
            \<longleftrightarrow> 25 < annual_volatility (portfolio_optimization p))
       \<and> (risk_level (risk_assessment p) = ''Medium''
            \<longleftrightarrow> 15 < annual_volatility (portfolio_optimization p)
                \<and> annual_volatility (portfolio_optimization p) \<le> 25)
       \<and> (risk_level (risk_assessment p) = ''Low''
            \<longleftrightarrow> annual_volatility (portfolio_optimization p) \<le> 15)
       \<and> (annual_volatility (portfolio_optimization p) \<le> annual_volatility (portfolio_optimization p2)
            \<longrightarrow> risk_rank (risk_level (risk_assessment p)) \<le> risk_rank (risk_level (risk_assessment p2)))"
proof -
  from assms(1) have l: "risk_level (risk_assessment p) =
      risk_level_of (annual_volatility (portfolio_optimization p))"
    by (elim predict_PredictionRecord) simp
  from assms(2) have l2: "risk_level (risk_assessment p2) =
      risk_level_of (annual_volatility (portfolio_optimization p2))"
    by (elim predict_PredictionRecord) simp
  show ?thesis
    unfolding l l2 by (simp add: risk_level_of_def risk_rank_def)
qed

theorem risk_level_thresholds_witness:
  "risk_level (risk_assessment demo_prediction) = ''Medium''
   \<and> annual_volatility (portfolio_optimization demo_prediction) = 20
   \<and> risk_level (risk_assessment volatile_prediction) = ''High''
   \<and> annual_volatility (portfolio_optimization volatile_prediction) = 30
   \<and> risk_rank (risk_level (risk_assessment demo_prediction))
       \<le> risk_rank (risk_level (risk_assessment volatile_prediction))"
  using risk_level_thresholds [OF demo_run volatile_run]
  by (simp add: demo_prediction_def demo_optimization_def volatile_prediction_def)

subsection \<open>C4: diversification score\<close>



subsection \<open>C5: an empty price table\<close>

text \<open>
  C5. Whenever the fetched price table is empty, \<^verbatim>\<open>optimize_portfolio\<close> returns an
  error record (a dictionary with the key "error") instead of raising an exception.
  Here \<open>(a, b)\<close> is the period the function asks the provider for, after the two
  clock readings if it was called without a start date.
\<close>

theorem empty_table_gives_error_record:
  assumes "default_period e start_date end_date s = ((a, b), s1)"
      and "yf_download e (downloads s1) tks a b = Inr data"
      and "df_empty data"
  shows "\<exists>d. optimize_portfolio e tks start_date end_date s =
               (Returns d, s1\<lparr>downloads := Suc (downloads s1)\<rparr>)
             \<and> has_error d
             \<and> d = ErrorRecord ''No data available for the given tickers''"
  using assms by (simp add: optimize_portfolio_def fetch_portfolio_data_def Let_def)

theorem empty_table_gives_error_record_witness:
  "default_period demo_env None None init_state =
     ((Some ''2022-01-01'', Some ''2024-01-01''), \<lparr>clock_reads = 2, downloads = 0, stdout = []\<rparr>)
   \<and> yf_download demo_env 0 [''ZZZZ''] (Some ''2022-01-01'') (Some ''2024-01-01'') = Inr []
   \<and> df_empty []
   \<and> optimize_portfolio demo_env [''ZZZZ''] None None init_state =
       (Returns (ErrorRecord ''No data available for the given tickers''),
        \<lparr>clock_reads = 2, downloads = 1, stdout = []\<rparr>)"
proof -
  have 1: "default_period demo_env None None init_state =
     ((Some ''2022-01-01'', Some ''2024-01-01''), \<lparr>clock_reads = 2, downloads = 0, stdout = []\<rparr>)"
    by (simp add: run_simps)
  have 2: "yf_download demo_env (downloads \<lparr>clock_reads = 2, downloads = 0, stdout = []\<rparr>)
             [''ZZZZ''] (Some ''2022-01-01'') (Some ''2024-01-01'') = Inr []"
    by (simp add: demo_env_def)
  have 3: "df_empty []" by (simp add: df_empty_def)
  from empty_table_gives_error_record [OF 1 2 3] 1 2 3 show ?thesis by simp
qed

subsection \<open>C6: requested tickers that are missing from the price table\<close>

text \<open>
  C6. In \<^verbatim>\<open>predict_portfolio_performance\<close> a requested ticker that is not a column of
  the fetched price table is left out of \<^verbatim>\<open>stock_analysis\<close> without an exception;
  \<^verbatim>\<open>stock_analysis\<close> has entries exactly for the requested tickers that are columns
  of the table.

  The loop treats a missing ticker as if it had not been requested; it returns whenever
  every requested ticker that is a column has a price, and its keys are then the
  requested tickers among the columns; and so are the keys of \<^verbatim>\<open>stock_analysis\<close> in
  every result, for the table of the second download of the call.
\<close>

theorem missing_tickers_excluded:
  "stock_analysis_loop e data A ws tks sa =
     stock_analysis_loop e data A ws (filter (\<lambda>t. t \<in> set (columns data)) tks) sa
   \<and> ((\<forall>t\<in>set tks. t \<in> set (columns data) \<longrightarrow> column_dropna data t \<noteq> []) \<longrightarrow>
        (\<exists>sa'. stock_analysis_loop e data A ws tks [] = Inr sa'
               \<and> fst ` set sa' = set tks \<inter> set (columns data)))
   \<and> (predict_portfolio_performance e tks A s = (Returns (PredictionRecord p), s') \<longrightarrow>
        (\<exists>a b data'. yf_download e (Suc (downloads s)) tks a b = Inr data'
               \<and> fst ` set (stock_analysis p) = set tks \<inter> set (columns data')))"
proof (intro conjI impI)
  show "stock_analysis_loop e data A ws tks sa =
     stock_analysis_loop e data A ws (filter (\<lambda>t. t \<in> set (columns data)) tks) sa"
    by (rule loop_filter)
next
  assume "\<forall>t\<in>set tks. t \<in> set (columns data) \<longrightarrow> column_dropna data t \<noteq> []"
  then obtain sa' where r: "stock_analysis_loop e data A ws tks [] = Inr sa'"
    using loop_returns by blast
  then have "fst ` set sa' = set tks \<inter> set (columns data)"
    by (simp add: loop_keys)
  with r show "\<exists>sa'. stock_analysis_loop e data A ws tks [] = Inr sa'
               \<and> fst ` set sa' = set tks \<inter> set (columns data)"
    by blast
next
  assume "predict_portfolio_performance e tks A s = (Returns (PredictionRecord p), s')"
  from predict_period [OF this]
  show "\<exists>a b data'. yf_download e (Suc (downloads s)) tks a b = Inr data'
               \<and> fst ` set (stock_analysis p) = set tks \<inter> set (columns data')"
    by blast
qed

theorem missing_tickers_excluded_witness:
  "''ZZZZ'' \<notin> set (columns demo_prices)
   \<and> ''AAPL'' \<in> set (columns demo_prices)
   \<and> column_dropna demo_prices ''AAPL'' = [100, 110, 121]
   \<and> predict_portfolio_performance demo_env [''AAPL'', ''ZZZZ''] 10000 init_state =
       (Returns (PredictionRecord demo_prediction), \<lparr>clock_reads = 2, downloads = 2, stdout = []\<rparr>)
   \<and> (\<exists>sa'. stock_analysis_loop demo_env demo_prices 10000 [(''AAPL'', 1)] [''AAPL'', ''ZZZZ''] [] = Inr sa'
            \<and> fst ` set sa' = {''AAPL''})
   \<and> fst ` set (stock_analysis demo_prediction) = {''AAPL''}"
proof -
  have a: "''ZZZZ'' \<notin> set (columns demo_prices)"
    by (simp add: columns_def demo_prices_def)
  have b: "\<forall>t\<in>set [''AAPL'', ''ZZZZ'']. t \<in> set (columns demo_prices) \<longrightarrow> column_dropna demo_prices t \<noteq> []"
    by (simp add: columns_def demo_prices_def column_dropna_def dropna_def List.map_filter_simps)
  have c: "set [''AAPL'', ''ZZZZ''] \<inter> set (columns demo_prices) = {''AAPL''}"
    by (simp add: columns_def demo_prices_def)
  have d: "fst ` set (stock_analysis demo_prediction) = {''AAPL''}"
    by (simp add: demo_prediction_def)
  from missing_tickers_excluded
         [where e = demo_env and data = demo_prices and A = 10000 and ws = "[(''AAPL'', 1)]"
            and tks = "[''AAPL'', ''ZZZZ'']" and s = init_state and p = demo_prediction]
       b
  have "\<exists>sa'. stock_analysis_loop demo_env demo_prices 10000 [(''AAPL'', 1)] [''AAPL'', ''ZZZZ''] [] = Inr sa'
            \<and> fst ` set sa' = set [''AAPL'', ''ZZZZ''] \<inter> set (columns demo_prices)"
    by blast
  moreover have "''AAPL'' \<in> set (columns demo_prices)"
    and "column_dropna demo_prices ''AAPL'' = [100, 110, 121]"
    by (simp_all add: columns_def demo_prices_def column_dropna_def dropna_def List.map_filter_simps)
  ultimately show ?thesis using a c d demo_run by simp
qed

subsection \<open>C7: no tickers on the command line\<close>

text \<open>
  C7. For every invocation whose ticker list is empty or contains only invalid tickers,
  the program prints a JSON object with the field "error" and does not end with an
  uncaught exception.

  The script does not do that when the ticker argument is absent. It tests
  \<^verbatim>\<open>len(sys.argv) < 2\<close> before it reports "No tickers provided", so
  \<^verbatim>\<open>portfolio_optimizer.py optimize\<close> and \<^verbatim>\<open>portfolio_optimizer.py predict\<close> pass
  the test and fail at \<^verbatim>\<open>sys.argv[2]\<close>: whatever the environment, nothing is printed
  to standard output and the process ends with an IndexError that nobody catches.
\<close>

theorem missing_ticker_argument_uncaught:
  "main e [''portfolio_optimizer.py'', ''optimize''] = ([], Uncaught IndexError)
   \<and> main e [''portfolio_optimizer.py'', ''predict''] = ([], Uncaught IndexError)"
  by (simp add: main_def)

subsection \<open>C9: the analysis period\<close>

text \<open>
  C9 as stated: when \<^verbatim>\<open>optimize_portfolio\<close> is called without a start date, and in
  every call of \<^verbatim>\<open>predict_portfolio_performance\<close>, the analysis period is exactly the
  730 days ending at the current date, and the result records those dates.

  The two dates come from two readings of the clock, the end date from the first. When
  midnight passes between them the period has 729 days: called in the last microsecond
  of 2024-01-01, \<^verbatim>\<open>optimize_portfolio\<close> records the period from 2022-01-02 to
  2024-01-01, which is the 730 days ending at neither of the two dates.
\<close>

theorem midnight_period_counterexample:
  "optimize_portfolio midnight_env [''AAPL''] None None init_state =
     (Returns (OptimizationRecord midnight_optimization), \<lparr>clock_reads = 2, downloads = 1, stdout = []\<rparr>)
   \<and> analysis_period midnight_optimization = (Some ''2022-01-02'', Some ''2024-01-01'')
   \<and> period_ending (ordinal (clock midnight_env 0)) = (Some ''2022-01-01'', Some ''2024-01-01'')
   \<and> period_ending (ordinal (clock midnight_env 1)) = (Some ''2022-01-02'', Some ''2024-01-02'')
   \<and> analysis_period midnight_optimization \<noteq> period_ending (ordinal (clock midnight_env 0))
   \<and> analysis_period midnight_optimization \<noteq> period_ending (ordinal (clock midnight_env 1))"
proof -
  have p0: "period_ending (ordinal (clock midnight_env 0)) = (Some ''2022-01-01'', Some ''2024-01-01'')"
    and p1: "period_ending (ordinal (clock midnight_env 1)) = (Some ''2022-01-02'', Some ''2024-01-02'')"
    by (simp_all add: period_ending_def midnight_env_def demo_env_def date_string_values)
  have r: "analysis_period midnight_optimization = (Some ''2022-01-02'', Some ''2024-01-01'')"
    by (simp add: analysis_period_def midnight_optimization_def)
  show ?thesis
    unfolding p0 p1 r by (simp add: midnight_run)
qed

text \<open>
  C9, amended: when both clock readings of the call fall on the same day \<open>d\<close>,
  \<^verbatim>\<open>optimize_portfolio\<close> called without a start date, and every call of
  \<^verbatim>\<open>predict_portfolio_performance\<close>, ask the provider for exactly the 730 days ending
  at \<open>d\<close>, and a successful result records those two dates as its analysis period.
\<close>

theorem analysis_period_730_days:
  assumes "ordinal (clock e (clock_reads s)) = d"
      and "ordinal (clock e (Suc (clock_reads s))) = d"
  shows "(falsy start_date \<longrightarrow>
            default_period e start_date end_date s =
              (period_ending d, s\<lparr>clock_reads := Suc (Suc (clock_reads s))\<rparr>))
       \<and> (falsy start_date
            \<and> optimize_portfolio e tks start_date end_date s = (Returns (OptimizationRecord r), s') \<longrightarrow>
            analysis_period r = period_ending d
            \<and> (\<exists>data. yf_download e (downloads s) tks
                         (fst (period_ending d)) (snd (period_ending d)) = Inr data))
       \<and> (predict_portfolio_performance e tks A s = (Returns (PredictionRecord p), s') \<longrightarrow>
            analysis_period (portfolio_optimization p) = period_ending d
            \<and> (\<exists>data. yf_download e (downloads s) tks
                         (fst (period_ending d)) (snd (period_ending d)) = Inr data)
            \<and> (\<exists>data. yf_download e (Suc (downloads s)) tks
                         (fst (period_ending d)) (snd (period_ending d)) = Inr data))"
proof (intro conjI impI)
  assume "falsy start_date"
  then show "default_period e start_date end_date s =
              (period_ending d, s\<lparr>clock_reads := Suc (Suc (clock_reads s))\<rparr>)"
    using assms by (simp add: default_period_now period_ending_def)
next
  assume "falsy start_date
            \<and> optimize_portfolio e tks start_date end_date s = (Returns (OptimizationRecord r), s')"
  then have *: "analysis_period r = period_ending d
       \<and> (\<exists>data. yf_download e (downloads s) tks
                    (analysis_period_start r) (analysis_period_end r) = Inr data)"
    using optimize_period [of start_date e tks end_date s r s'] assms
    by (simp add: period_ending_def)
  then show "analysis_period r = period_ending d" by simp
  from * period_components [of r "period_ending d"]
  show "\<exists>data. yf_download e (downloads s) tks
                         (fst (period_ending d)) (snd (period_ending d)) = Inr data"
    by auto
next
  assume "predict_portfolio_performance e tks A s = (Returns (PredictionRecord p), s')"
  from predict_period [OF this] assms
  have *: "analysis_period (portfolio_optimization p) = period_ending d"
    and **: "\<exists>data. yf_download e (downloads s) tks
                    (analysis_period_start (portfolio_optimization p))
                    (analysis_period_end (portfolio_optimization p)) = Inr data"
    and ***: "\<exists>data. yf_download e (Suc (downloads s)) tks
                    (analysis_period_start (portfolio_optimization p))
                    (analysis_period_end (portfolio_optimization p)) = Inr data"
    by (auto simp: period_ending_def)
  from * show "analysis_period (portfolio_optimization p) = period_ending d" .
  from ** period_components [OF *]
  show "\<exists>data. yf_download e (downloads s) tks
                         (fst (period_ending d)) (snd (period_ending d)) = Inr data"
    by auto
  from *** period_components [OF *]
  show "\<exists>data. yf_download e (Suc (downloads s)) tks
                         (fst (period_ending d)) (snd (period_ending d)) = Inr data"
    by auto
qed

theorem analysis_period_730_days_witness:
  "ordinal (clock demo_env (clock_reads init_state)) = 738886
   \<and> ordinal (clock demo_env (Suc (clock_reads init_state))) = 738886
   \<and> falsy None
   \<and> period_ending 738886 = (Some ''2022-01-01'', Some ''2024-01-01'')
   \<and> optimize_portfolio demo_env [''AAPL'', ''ZZZZ''] None None init_state =
       (Returns (OptimizationRecord demo_optimization), \<lparr>clock_reads = 2, downloads = 1, stdout = []\<rparr>)
   \<and> analysis_period demo_optimization = period_ending 738886
   \<and> predict_portfolio_performance demo_env [''AAPL'', ''ZZZZ''] 10000 init_state =
       (Returns (PredictionRecord demo_prediction), \<lparr>clock_reads = 2, downloads = 2, stdout = []\<rparr>)
   \<and> analysis_period (portfolio_optimization demo_prediction) = period_ending 738886"
proof -
  have 1: "ordinal (clock demo_env (clock_reads init_state)) = 738886"
    and 2: "ordinal (clock demo_env (Suc (clock_reads init_state))) = 738886"
    by (simp_all add: demo_env_def)
  have 3: "falsy None" by (simp add: falsy_def)
  have 4: "period_ending 738886 = (Some ''2022-01-01'', Some ''2024-01-01'')"
    by (simp add: period_ending_def date_string_values)
  from analysis_period_730_days [OF 1 2, where start_date = None and tks = "[''AAPL'', ''ZZZZ'']"
      and r = demo_optimization and A = 10000 and p = demo_prediction]
    3 demo_optimize_run demo_run
  have "analysis_period demo_optimization = period_ending 738886"
    and "analysis_period (portfolio_optimization demo_prediction) = period_ending 738886"
    by blast+
  with 1 2 3 4 demo_optimize_run demo_run show ?thesis by simp
qed

subsection \<open>C10: the first recommendation\<close>




end
